theory Spec2Isabelle
  imports Main "HOL-Library.Multiset"
begin

section \<open>The damage-reports page (client/src/pages/Reports.tsx)\<close>

text \<open>
  The page holds a list of damage reports and a list of inventory items fetched from the
  server, four pieces of local state (\<open>searchQuery\<close>, \<open>filterStatus\<close>,
  \<open>showReportForm\<close>, \<open>formData\<close>), and computes on every render the list it shows,
  \<open>filteredReports\<close>. The form of the dialog is submitted through \<open>handleSubmitReport\<close>.

  A JavaScript string is a sequence of UTF-16 code units; it is modelled as the list of
  its code units. \<open>utf16\<close> gives the code units of an ASCII literal of the source.
\<close>

type_synonym jsstring = "nat list"

definition utf16 :: "string \<Rightarrow> jsstring" where
  "utf16 s = map of_char s"

text \<open>
  The fields of a report and of an item that the page reads. The source's field \<open>id\<close>
  is named \<open>report_id\<close> and \<open>item_id\<close> here. \<open>createdAt\<close> is what
  \<open>new Date(report.createdAt).getTime()\<close> yields: the milliseconds since the epoch, or
  \<open>None\<close> for the NaN of a date that is missing or does not parse. \<open>productName\<close>
  and \<open>resolutionNotes\<close> may be absent, as the optional chaining and the conditional
  rendering of the source allow.
\<close>

record report =
  report_id :: jsstring
  itemId :: jsstring
  reportedBy :: jsstring
  reportType :: jsstring
  severity :: jsstring
  description :: jsstring
  status :: jsstring
  createdAt :: "int option"
  resolutionNotes :: "jsstring option"

record inventory_item =
  item_id :: jsstring
  productName :: "jsstring option"

subsection \<open>The built-ins of the language that the page calls\<close>

text \<open>
  \<open>String.prototype.includes\<close>: the argument occurs in the string at some position.
\<close>

fun js_includes :: "jsstring \<Rightarrow> jsstring \<Rightarrow> bool" where
  "js_includes [] q = (q = [])"
| "js_includes (c # cs) q = (take (length q) (c # cs) = q \<or> js_includes cs q)"

text \<open>
  \<open>String.prototype.trim\<close> removes the white space and the line terminators of
  ECMAScript from both ends: TAB, LF, VT, FF, CR, SP, NBSP, U+1680, U+2000 to U+200A,
  U+2028, U+2029, U+202F, U+205F, U+3000 and U+FEFF.
\<close>

definition isWhiteSpace :: "nat \<Rightarrow> bool" where
  "isWhiteSpace c =
     (c \<in> set [9, 10, 11, 12, 13, 32, 160, 5760, 8232, 8233, 8239, 8287, 12288, 65279]
      \<or> (8192 \<le> c \<and> c \<le> 8202))"

definition trim :: "jsstring \<Rightarrow> jsstring" where
  "trim s = rev (dropWhile isWhiteSpace (rev (dropWhile isWhiteSpace s)))"

text \<open>
  \<open>Array.prototype.sort\<close> with a comparator. The comparator gives a number, \<open>None\<close>
  standing for NaN, which the sort takes for 0. The sort is stable (ECMAScript 2019 on):
  an element goes before another when the comparator is negative on them, and elements
  the comparator takes for equal keep their order. The loop below inserts the elements
  from the last to the first, each before the first element it does not come after. For
  a comparator that is not a consistent order, as one that gives NaN on some pairs only,
  ECMAScript leaves the order to the implementation: the array still holds the same
  elements, and the loop gives one of the orders allowed.
\<close>

definition sort_compare :: "('a \<Rightarrow> 'a \<Rightarrow> int option) \<Rightarrow> 'a \<Rightarrow> 'a \<Rightarrow> int" where
  "sort_compare cmp x y = (case cmp x y of None \<Rightarrow> 0 | Some v \<Rightarrow> v)"

fun insert_sorted :: "('a \<Rightarrow> 'a \<Rightarrow> int option) \<Rightarrow> 'a \<Rightarrow> 'a list \<Rightarrow> 'a list" where
  "insert_sorted cmp x [] = [x]"
| "insert_sorted cmp x (y # ys) =
     (if sort_compare cmp x y \<le> 0 then x # y # ys else y # insert_sorted cmp x ys)"

definition sort_by :: "('a \<Rightarrow> 'a \<Rightarrow> int option) \<Rightarrow> 'a list \<Rightarrow> 'a list" where
  "sort_by cmp xs = foldr (insert_sorted cmp) xs []"

text \<open>
  Arrays are objects: \<open>filter\<close> allocates a new array and leaves its receiver alone,
  \<open>sort\<close> sorts its receiver in place and returns it. The heap maps a reference to the
  array it holds; \<open>fresh\<close> is the next reference to hand out. A reference that holds
  no array gives \<open>None\<close>.
\<close>

record heap =
  arrays :: "nat \<Rightarrow> report list option"
  fresh :: nat

definition heap_ok :: "heap \<Rightarrow> bool" where
  "heap_ok h = (\<forall>a. fresh h \<le> a \<longrightarrow> arrays h a = None)"

definition array_filter :: "(report \<Rightarrow> bool) \<Rightarrow> nat \<Rightarrow> heap \<Rightarrow> (nat \<times> heap) option" where
  "array_filter p a h =
     (case arrays h a of
        None \<Rightarrow> None
      | Some xs \<Rightarrow>
          Some (fresh h, h\<lparr>arrays := (arrays h)(fresh h \<mapsto> filter p xs), fresh := Suc (fresh h)\<rparr>))"

definition array_sort :: "(report \<Rightarrow> report \<Rightarrow> int option) \<Rightarrow> nat \<Rightarrow> heap \<Rightarrow> (nat \<times> heap) option" where
  "array_sort cmp a h =
     (case arrays h a of
        None \<Rightarrow> None
      | Some xs \<Rightarrow> Some (a, h\<lparr>arrays := (arrays h)(a \<mapsto> sort_by cmp xs)\<rparr>))"

subsection \<open>filteredReports\<close>

text \<open>
  \<^verbatim>\<open>
  const filteredReports = reports
    .filter(report => {
      const itemName = items.find(i => i.id === report.itemId)?.productName?.toLowerCase() || "";
      const matchesSearch = searchQuery === "" || itemName.includes(searchQuery.toLowerCase());
      const matchesFilter = filterStatus === "all" || report.status === filterStatus;
      const matchesRole = userRole === 'admin' || report.reportedBy === userId;
      return matchesSearch && matchesFilter && matchesRole;
    })
    .sort((a, b) => new Date(b.createdAt).getTime() - new Date(a.createdAt).getTime());
  \<close>
  \<open>String.prototype.toLowerCase\<close> is the case conversion of Unicode; the definitions
  take it as the parameter \<open>toLowerCase\<close>, so what is proved holds whatever it computes.
  The difference of two times is NaN when either is.
\<close>

definition itemName :: "(jsstring \<Rightarrow> jsstring) \<Rightarrow> inventory_item list \<Rightarrow> report \<Rightarrow> jsstring" where
  "itemName toLowerCase items report =
     (case find (\<lambda>i. item_id i = itemId report) items of
        None \<Rightarrow> []
      | Some i \<Rightarrow> (case productName i of None \<Rightarrow> [] | Some n \<Rightarrow> toLowerCase n))"

definition matchesReport ::
  "(jsstring \<Rightarrow> jsstring) \<Rightarrow> inventory_item list \<Rightarrow> jsstring \<Rightarrow> jsstring \<Rightarrow> jsstring \<Rightarrow> jsstring
    \<Rightarrow> report \<Rightarrow> bool" where
  "matchesReport toLowerCase items searchQuery filterStatus userRole userId report =
     (let matchesSearch =
            (searchQuery = [] \<or> js_includes (itemName toLowerCase items report) (toLowerCase searchQuery));
          matchesFilter = (filterStatus = utf16 ''all'' \<or> status report = filterStatus);
          matchesRole = (userRole = utf16 ''admin'' \<or> reportedBy report = userId)
      in matchesSearch \<and> matchesFilter \<and> matchesRole)"

definition compareCreatedAt :: "report \<Rightarrow> report \<Rightarrow> int option" where
  "compareCreatedAt a b =
     (case (createdAt b, createdAt a) of
        (Some tb, Some ta) \<Rightarrow> Some (tb - ta)
      | _ \<Rightarrow> None)"

definition filteredReports ::
  "(jsstring \<Rightarrow> jsstring) \<Rightarrow> nat \<Rightarrow> inventory_item list \<Rightarrow> jsstring \<Rightarrow> jsstring \<Rightarrow> jsstring \<Rightarrow> jsstring
    \<Rightarrow> heap \<Rightarrow> (nat \<times> heap) option" where
  "filteredReports toLowerCase reports items searchQuery filterStatus userRole userId h =
     (case array_filter (matchesReport toLowerCase items searchQuery filterStatus userRole userId)
             reports h of
        None \<Rightarrow> None
      | Some (filtered, h1) \<Rightarrow> array_sort compareCreatedAt filtered h1)"

subsection \<open>handleSubmitReport\<close>

text \<open>
  \<^verbatim>\<open>
  const handleSubmitReport = (e: React.FormEvent) => {
    e.preventDefault();
    if (!formData.itemId || !formData.description.trim()) {
      toast({ title: "Please fill in all required fields", variant: "destructive" });
      return;
    }
    createReportMutation.mutate({
      itemId: formData.itemId,
      reportedBy: userId,
      reportType: formData.reportType,
      severity: formData.severity,
      description: formData.description
    });
  };
  \<close>
  The handler reads the local state and sets none of it. What it does to the outside is
  the list of effects, in order. \<open>Mutate\<close> carries the fields of the object given to
  \<open>createReportMutation.mutate\<close>: itemId, reportedBy, reportType, severity, description.
  \<open>Toast\<close> carries the title and the variant. The form is reset later, by the
  mutation's \<open>onSuccess\<close>.
\<close>

record formData =
  itemId :: jsstring
  reportType :: jsstring
  severity :: jsstring
  description :: jsstring

record page =
  searchQuery :: jsstring
  filterStatus :: jsstring
  showReportForm :: bool
  formData :: formData

datatype effect =
    PreventDefault
  | Toast jsstring "jsstring option"
  | Mutate jsstring jsstring jsstring jsstring jsstring
  | InvalidateQueries jsstring

definition handleSubmitReport :: "jsstring \<Rightarrow> page \<Rightarrow> effect list \<times> page" where
  "handleSubmitReport userId st =
     (if itemId (formData st) = [] \<or> trim (description (formData st)) = []
      then ([PreventDefault,
             Toast (utf16 ''Please fill in all required fields'') (Some (utf16 ''destructive''))], st)
      else ([PreventDefault,
             Mutate (itemId (formData st)) userId (reportType (formData st))
                    (severity (formData st)) (description (formData st))], st))"

definition createReport_onSuccess :: "page \<Rightarrow> effect list \<times> page" where
  "createReport_onSuccess st =
     ([InvalidateQueries (utf16 ''/api/damage-reports''),
       Toast (utf16 ''Report submitted successfully'') None],
      st\<lparr>showReportForm := False,
          formData := \<lparr>itemId = [], reportType = utf16 ''user-damage'',
                       severity = utf16 ''medium'', description = []\<rparr>\<rparr>)"

subsection \<open>Example data\<close>

text \<open>
  Three reports, two of them of one date, on a heap that holds them at reference 0, and a
  page whose form is filled in.
\<close>

definition demo_report :: "string \<Rightarrow> string \<Rightarrow> int \<Rightarrow> report" where
  "demo_report n u t =
     \<lparr>report_id = utf16 n, itemId = utf16 ''cam'', reportedBy = utf16 u,
      reportType = utf16 ''user-damage'', severity = utf16 ''low'',
      description = utf16 ''cracked lens'', status = utf16 ''open'', createdAt = Some t,
      resolutionNotes = None\<rparr>"

definition demo_reports :: "report list" where
  "demo_reports = [demo_report ''r1'' ''ann'' 100, demo_report ''r2'' ''bob'' 300,
                   demo_report ''r3'' ''ann'' 300]"

definition demo_heap :: heap where
  "demo_heap = \<lparr>arrays = [0 \<mapsto> demo_reports], fresh = 1\<rparr>"

definition demo_page :: "string \<Rightarrow> string \<Rightarrow> page" where
  "demo_page i d =
     \<lparr>searchQuery = [], filterStatus = utf16 ''all'', showReportForm = True,
      formData = \<lparr>itemId = utf16 i, reportType = utf16 ''user-damage'',
                  severity = utf16 ''medium'', description = utf16 d\<rparr>\<rparr>"

section \<open>The reservation engine of the specification\<close>

text \<open>
  The specification describes a reservation engine: a Workflow Engine whose
  \<open>Transition\<close> moves a reservation along a fixed graph of statuses, a Conflict Detector
  and an Interval Index that keep the booked windows of an item apart. None of its code
  is among the source files, which hold the damage-reports page only. What follows is
  written from the words of the specification (sections 3, 4.1 to 4.3, 6 and 7), and
  covers \<open>Transition\<close> with what it calls; \<open>CreateReservation\<close>, \<open>SetMaintenance\<close> and
  the Scheduler Sweep are not modelled. Times are integers, identifiers are natural
  numbers.
\<close>

text \<open>
  Modelled from the spec: the status of a reservation (section 3; the engine's code is
  missing). Rejected, Completed and Cancelled are the terminal statuses.
\<close>

datatype res_status = Pending | Approved | Rejected | Active | Completed | Cancelled

text \<open>
  Modelled from the spec: the status of an item (section 3; the engine's code is missing).
\<close>

datatype item_status = Available | Reserved | InUse | Maintenance

text \<open>
  Modelled from the spec: the caller of a transition with its role (section 4.2: an
  administrator, a user, or the scheduler sweep; the engine's code is missing).
\<close>

datatype actor = Admin nat | Member nat | Sweep

text \<open>
  Modelled from the spec: the failures of section 7, and \<open>InvariantViolation\<close> of the
  Interval Index (section 4.1); the engine's code is missing. \<open>BookingConflict\<close> carries
  the conflicting reservation ids.
\<close>

datatype engine_error =
    ValidationError
  | BookingConflict "nat list"
  | InvalidTransition
  | StaleWrite
  | Forbidden
  | MaintenanceBlocked
  | InvariantViolation

text \<open>
  Modelled from the spec: the Reservation of section 3 (the engine's code is missing),
  which books the half-open window from \<open>startDate\<close> to \<open>returnDate\<close>.
\<close>

record reservation =
  res_id :: nat
  res_itemId :: nat
  res_userId :: nat
  startDate :: int
  returnDate :: int
  res_status :: res_status
  res_notes :: string
  rejectionReason :: "string option"
  approvedBy :: "nat option"
  version :: nat
  res_createdAt :: int
  updatedAt :: int

text \<open>
  Modelled from the spec: the StatusHistoryRecord of section 3 (the Activity Recorder's
  code is missing).
\<close>

record status_history_record =
  hist_id :: nat
  hist_reservationId :: nat
  fromStatus :: res_status
  toStatus :: res_status
  actorId :: actor
  timestamp :: int
  reason :: "string option"

text \<open>
  Modelled from the spec: the NotificationEvent of section 3 (the Notification
  Dispatcher's code is missing).
\<close>

record notification_event =
  event_id :: nat
  recipientUserId :: nat
  event_reservationId :: nat
  kind :: res_status
  payload :: "string option"
  event_createdAt :: int
  deliveredFlag :: bool

text \<open>
  Modelled from the spec: the Interval Index of section 4.1 (its code is missing), for
  each item the windows of the reservations that occupy it, each with its reservation id.
\<close>

type_synonym interval_index = "nat \<Rightarrow> (nat \<times> int \<times> int) list"

text \<open>
  Modelled from the spec: the persisted state of section 6 (the engine's code is
  missing): the reservations, the status of every item, the Interval Index, and the two
  append-only tables.
\<close>

record engine =
  reservations :: "reservation list"
  item_status_of :: "nat \<Rightarrow> item_status"
  index :: interval_index
  history :: "status_history_record list"
  notifications :: "notification_event list"

text \<open>
  Modelled from the spec: when two half-open windows overlap (section 3, Invariant A; the
  Interval Index's code is missing).
\<close>

definition overlaps :: "int \<Rightarrow> int \<Rightarrow> int \<Rightarrow> int \<Rightarrow> bool" where
  "overlaps s1 e1 s2 e2 = (s1 < e2 \<and> s2 < e1)"

text \<open>
  Modelled from the spec: \<open>query(itemId, start, end, excludeReservationId)\<close> of the
  Interval Index (section 4.1; its code is missing), the ids of the item's windows that
  overlap the given one, the excluded reservation left out.
\<close>

definition index_query :: "interval_index \<Rightarrow> nat \<Rightarrow> int \<Rightarrow> int \<Rightarrow> nat option \<Rightarrow> nat list" where
  "index_query idx item s e exclude =
     map fst (filter (\<lambda>(r, s', e'). overlaps s e s' e' \<and> exclude \<noteq> Some r) (idx item))"

text \<open>
  Modelled from the spec: \<open>insert(itemId, reservationId, start, end)\<close> of the Interval
  Index (section 4.1; its code is missing), which fails with \<open>InvariantViolation\<close> when
  the window overlaps one that is there.
\<close>

definition index_insert ::
  "interval_index \<Rightarrow> nat \<Rightarrow> nat \<Rightarrow> int \<Rightarrow> int \<Rightarrow> engine_error + interval_index" where
  "index_insert idx item r s e =
     (if index_query idx item s e None = [] then Inr (idx(item := idx item @ [(r, s, e)]))
      else Inl InvariantViolation)"

text \<open>
  Modelled from the spec: \<open>remove(itemId, reservationId)\<close> of the Interval Index
  (section 4.1; its code is missing).
\<close>

definition index_remove :: "interval_index \<Rightarrow> nat \<Rightarrow> nat \<Rightarrow> interval_index" where
  "index_remove idx item r = idx(item := filter (\<lambda>(r', s', e'). r' \<noteq> r) (idx item))"

text \<open>
  Modelled from the spec: whether the Interval Index holds a window of the reservation
  (section 4.2: Approved and Active are one occupancy of the index; its code is missing).
\<close>

definition index_member :: "interval_index \<Rightarrow> nat \<Rightarrow> nat \<Rightarrow> bool" where
  "index_member idx item r = (r \<in> set (map fst (idx item)))"

text \<open>
  Modelled from the spec: the answer of the Conflict Detector (section 4.3; its code is
  missing).
\<close>

datatype check_result = Ok | Conflict "nat list"

text \<open>
  Modelled from the spec: \<open>check(itemId, start, end, excludeReservationId)\<close> of the
  Conflict Detector (section 4.3; its code is missing), a query of the Interval Index
  that changes nothing.
\<close>

definition check :: "interval_index \<Rightarrow> nat \<Rightarrow> int \<Rightarrow> int \<Rightarrow> nat option \<Rightarrow> check_result" where
  "check idx item s e exclude =
     (case index_query idx item s e exclude of [] \<Rightarrow> Ok | c # cs \<Rightarrow> Conflict (c # cs))"

text \<open>
  Modelled from the spec: who may take an edge (section 4.2; the Workflow Engine's code
  is missing).
\<close>

datatype role_rule = AdminOnly | OwnerOrAdmin | SweepOnly

text \<open>
  Modelled from the spec: the allowed transitions of section 4.2 with the role each asks
  for (the Workflow Engine's code is missing). The terminal statuses have no edge.
\<close>

fun edge :: "res_status \<Rightarrow> res_status \<Rightarrow> role_rule option" where
  "edge Pending Approved = Some AdminOnly"
| "edge Pending Rejected = Some AdminOnly"
| "edge Pending Cancelled = Some OwnerOrAdmin"
| "edge Approved Active = Some SweepOnly"
| "edge Approved Cancelled = Some OwnerOrAdmin"
| "edge Active Completed = Some SweepOnly"
| "edge Active Cancelled = Some AdminOnly"
| "edge _ _ = None"

text \<open>
  Modelled from the spec: the times of the edges of section 4.2 (the Workflow Engine's
  code is missing): to Active at \<open>startDate\<close>, from Approved to Cancelled only before
  \<open>startDate\<close>, to Completed at \<open>returnDate\<close>.
\<close>

fun edge_open :: "res_status \<Rightarrow> res_status \<Rightarrow> int \<Rightarrow> reservation \<Rightarrow> bool" where
  "edge_open Approved Active now r = (startDate r \<le> now)"
| "edge_open Approved Cancelled now r = (now < startDate r)"
| "edge_open Active Completed now r = (returnDate r \<le> now)"
| "edge_open _ _ now r = True"

text \<open>
  Modelled from the spec: the edge-to-role map of section 4.2 (the Workflow Engine's code
  is missing); the last argument is the user who owns the reservation.
\<close>

fun authorized :: "role_rule \<Rightarrow> actor \<Rightarrow> nat \<Rightarrow> bool" where
  "authorized AdminOnly (Admin a) owner = True"
| "authorized OwnerOrAdmin (Admin a) owner = True"
| "authorized OwnerOrAdmin (Member u) owner = (u = owner)"
| "authorized SweepOnly Sweep owner = True"
| "authorized _ _ owner = False"

text \<open>
  Modelled from the spec: reading a reservation by its id and writing it back (section 6,
  the Reservation table; the engine's code is missing).
\<close>

definition find_reservation :: "engine \<Rightarrow> nat \<Rightarrow> reservation option" where
  "find_reservation s rid = find (\<lambda>r. res_id r = rid) (reservations s)"

definition put_reservation :: "reservation \<Rightarrow> reservation list \<Rightarrow> reservation list" where
  "put_reservation r' rs = map (\<lambda>r. if res_id r = res_id r' then r' else r) rs"

text \<open>
  Modelled from the spec: the derivation rule of Item.status (section 3; the engine's
  code is missing), the projection of the most advanced reservation of the item that is
  not terminal: InUse for an Active one, Reserved for an Approved one. A Pending
  reservation does not occupy the item (glossary), so it leaves the item Available.
\<close>

definition derive_item_status :: "reservation list \<Rightarrow> nat \<Rightarrow> item_status" where
  "derive_item_status rs item =
     (if list_ex (\<lambda>r. res_itemId r = item \<and> res_status r = Active) rs then InUse
      else if list_ex (\<lambda>r. res_itemId r = item \<and> res_status r = Approved) rs then Reserved
      else Available)"

text \<open>
  Modelled from the spec: the user behind an actor, recorded as \<open>approvedBy\<close> (section 3;
  the engine's code is missing).
\<close>

definition actor_user :: "actor \<Rightarrow> nat option" where
  "actor_user a = (case a of Admin u \<Rightarrow> Some u | Member u \<Rightarrow> Some u | Sweep \<Rightarrow> None)"

text \<open>
  Modelled from the spec: what a successful transition writes (section 4.2, last but one
  item; the Workflow Engine's code is missing): the new status, the version incremented,
  \<open>rejectionReason\<close> on Rejected and \<open>approvedBy\<close> on Approved, the Interval Index, the
  item's status by the derivation rule unless Maintenance is set, one StatusHistoryRecord
  and one NotificationEvent for the owner.
\<close>

definition commit ::
  "engine \<Rightarrow> int \<Rightarrow> reservation \<Rightarrow> res_status \<Rightarrow> actor \<Rightarrow> string option \<Rightarrow> interval_index
    \<Rightarrow> (engine_error + reservation) \<times> engine" where
  "commit s now r target actor why idx' =
     (let r' = r\<lparr>res_status := target,
                  version := Suc (version r),
                  updatedAt := now,
                  rejectionReason := (if target = Rejected then why else rejectionReason r),
                  approvedBy := (if target = Approved then actor_user actor else approvedBy r)\<rparr>;
          rs' = put_reservation r' (reservations s);
          item = res_itemId r
      in (Inr r',
          s\<lparr>reservations := rs',
            item_status_of := (item_status_of s)
              (item := (if item_status_of s item = Maintenance then Maintenance
                        else derive_item_status rs' item)),
            index := idx',
            history := history s @
              [\<lparr>hist_id = length (history s), hist_reservationId = res_id r,
                fromStatus = res_status r, toStatus = target, actorId = actor,
                timestamp = now, reason = why\<rparr>],
            notifications := notifications s @
              [\<lparr>event_id = length (notifications s), recipientUserId = res_userId r,
                event_reservationId = res_id r, kind = target, payload = why,
                event_createdAt = now, deliveredFlag = False\<rparr>]\<rparr>))"

text \<open>
  Modelled from the spec: the statuses that occupy the item, Approved and Active
  (section 4.2 and the glossary; the engine's code is missing).
\<close>

definition occupies :: "res_status \<Rightarrow> bool" where
  "occupies st = (st = Approved \<or> st = Active)"

text \<open>
  Modelled from the spec: the update of the Interval Index on a transition (section 4.2;
  the Workflow Engine's code is missing): insert on entering Approved or Active, the two
  being one occupancy, so a window that is there stays; remove on entering a terminal
  status.
\<close>

definition next_index :: "engine \<Rightarrow> reservation \<Rightarrow> res_status \<Rightarrow> engine_error + interval_index" where
  "next_index s r target =
     (if occupies target then
        (if index_member (index s) (res_itemId r) (res_id r) then Inr (index s)
         else index_insert (index s) (res_itemId r) (res_id r) (startDate r) (returnDate r))
      else Inr (index_remove (index s) (res_itemId r) (res_id r)))"

text \<open>
  Modelled from the spec: \<open>Transition(reservationId, targetStatus, actorId, version,
  reason?)\<close> of sections 4.2 and 6 (the Workflow Engine's code is missing). It answers
  with the reservation or a failure, and gives the state after the call; a failure
  leaves the state as it was (section 5: a transition commits whole or not at all). The
  checks run in this order: the edge exists and is open at this time
  (\<open>InvalidTransition\<close>), the actor has the role of the edge (\<open>Forbidden\<close>), the item is
  not under Maintenance when the target is Approved (\<open>MaintenanceBlocked\<close>), the
  Conflict Detector finds no overlap when the target is Approved or Active
  (\<open>BookingConflict\<close>), the version presented is the current one (\<open>StaleWrite\<close>). The
  specification names the checks and not their order, nor the failure for an id that no
  reservation has (\<open>ValidationError\<close> here) or for an edge taken at the wrong time
  (\<open>InvalidTransition\<close> here).
\<close>

definition Transition ::
  "engine \<Rightarrow> int \<Rightarrow> nat \<Rightarrow> res_status \<Rightarrow> actor \<Rightarrow> nat \<Rightarrow> string option
    \<Rightarrow> (engine_error + reservation) \<times> engine" where
  "Transition s now rid target actor ver why =
     (case find_reservation s rid of
        None \<Rightarrow> (Inl ValidationError, s)
      | Some r \<Rightarrow>
         (case edge (res_status r) target of
            None \<Rightarrow> (Inl InvalidTransition, s)
          | Some rule \<Rightarrow>
              if \<not> edge_open (res_status r) target now r then (Inl InvalidTransition, s)
              else if \<not> authorized rule actor (res_userId r) then (Inl Forbidden, s)
              else if target = Approved \<and> item_status_of s (res_itemId r) = Maintenance
                then (Inl MaintenanceBlocked, s)
              else
               (case (if occupies target
                      then check (index s) (res_itemId r) (startDate r) (returnDate r) (Some rid)
                      else Ok) of
                  Conflict ids \<Rightarrow> (Inl (BookingConflict ids), s)
                | Ok \<Rightarrow>
                    if ver \<noteq> version r then (Inl StaleWrite, s)
                    else (case next_index s r target of
                            Inl err \<Rightarrow> (Inl err, s)
                          | Inr idx' \<Rightarrow> commit s now r target actor why idx'))))"

subsection \<open>Example data\<close>

text \<open>
  One item, number 7, with five reservations of user 3: two Pending ones on the adjacent
  windows from day 1 to day 5 and from day 5 to day 10, an Approved one from day 10 to
  day 12 that the Interval Index holds, a Rejected one, and a Pending one from day 11 to
  day 13 that overlaps the Approved one.
\<close>

definition demo_reservation :: "nat \<Rightarrow> int \<Rightarrow> int \<Rightarrow> res_status \<Rightarrow> reservation" where
  "demo_reservation n s e st =
     \<lparr>res_id = n, res_itemId = 7, res_userId = 3, startDate = s, returnDate = e,
      res_status = st, res_notes = [], rejectionReason = None, approvedBy = None,
      version = 0, res_createdAt = 0, updatedAt = 0\<rparr>"

definition demo_engine :: engine where
  "demo_engine =
     \<lparr>reservations = [demo_reservation 1 1 5 Pending, demo_reservation 2 5 10 Pending,
                      demo_reservation 3 10 12 Approved, demo_reservation 4 20 25 Rejected,
                      demo_reservation 5 11 13 Pending],
      item_status_of = (\<lambda>i. Available)(7 := Reserved),
      index = (\<lambda>i. [])(7 := [(3, 10, 12)]),
      history = [], notifications = []\<rparr>"

section \<open>The sort keeps the elements\<close>

lemma mset_insert_sorted: "mset (insert_sorted cmp x ys) = add_mset x (mset ys)"
  by (induction ys) auto

lemma mset_sort_by: "mset (sort_by cmp xs) = mset xs"
  by (induction xs) (auto simp: sort_by_def mset_insert_sorted)

lemma set_sort_by: "set (sort_by cmp xs) = set xs"
  using mset_sort_by [of cmp xs] by (metis set_mset_mset)

section \<open>What filteredReports returns\<close>

lemma filteredReports_result:
  assumes "heap_ok h" and "arrays h reports = Some rs"
  shows "filteredReports toLowerCase reports items q fs userRole userId h
           = Some (fresh h,
                   h\<lparr>arrays := (arrays h)(fresh h \<mapsto>
                        sort_by compareCreatedAt
                          (filter (matchesReport toLowerCase items q fs userRole userId) rs)),
                     fresh := Suc (fresh h)\<rparr>)"
  using assms by (simp add: filteredReports_def array_filter_def array_sort_def)

lemma demo_run_ann:
  "filteredReports (\<lambda>s. s) 0 [] [] (utf16 ''all'') (utf16 ''user'') (utf16 ''ann'') demo_heap
     = Some (1, demo_heap\<lparr>arrays := (arrays demo_heap)(1 \<mapsto>
            [demo_report ''r3'' ''ann'' 300, demo_report ''r1'' ''ann'' 100]), fresh := 2\<rparr>)"
  by (simp add: filteredReports_def array_filter_def array_sort_def demo_heap_def
      demo_reports_def demo_report_def matchesReport_def itemName_def utf16_def sort_by_def
      sort_compare_def compareCreatedAt_def)

section \<open>Who sees which report\<close>

text \<open>
  Claim C9 (visibility). Every report of the list the page shows was filed by the viewer,
  unless the viewer's role is \<open>admin\<close>: a viewer of any other role sees no report of
  another user.
\<close>

theorem filteredReports_visibility:
  assumes "filteredReports toLowerCase reports items q fs userRole userId h = Some (res, h')"
      and "arrays h' res = Some out"
  shows "(\<forall>r\<in>set out. userRole = utf16 ''admin'' \<or> reportedBy r = userId)
       \<and> (userRole \<noteq> utf16 ''admin'' \<longrightarrow> (\<forall>r\<in>set out. reportedBy r = userId))"
proof -
  let ?m = "matchesReport toLowerCase items q fs userRole userId"
  obtain rs where rs: "arrays h reports = Some rs"
    using assms(1) by (cases "arrays h reports") (auto simp: filteredReports_def array_filter_def)
  have "out = sort_by compareCreatedAt (filter ?m rs)"
    using assms rs by (auto simp: filteredReports_def array_filter_def array_sort_def)
  then have "set out \<subseteq> {r. ?m r}" by (auto simp: set_sort_by)
  then have "\<forall>r\<in>set out. userRole = utf16 ''admin'' \<or> reportedBy r = userId"
    by (auto simp: matchesReport_def Let_def)
  then show ?thesis by blast
qed

theorem filteredReports_visibility_witness:
  "filteredReports (\<lambda>s. s) 0 [] [] (utf16 ''all'') (utf16 ''user'') (utf16 ''ann'') demo_heap
     = Some (1, demo_heap\<lparr>arrays := (arrays demo_heap)(1 \<mapsto>
            [demo_report ''r3'' ''ann'' 300, demo_report ''r1'' ''ann'' 100]), fresh := 2\<rparr>)
   \<and> utf16 ''user'' \<noteq> utf16 ''admin''
   \<and> reportedBy (demo_report ''r3'' ''ann'' 300) = utf16 ''ann''
   \<and> reportedBy (demo_report ''r1'' ''ann'' 100) = utf16 ''ann''
   \<and> demo_report ''r2'' ''bob'' 300 \<in> set demo_reports
   \<and> reportedBy (demo_report ''r2'' ''bob'' 300) \<noteq> utf16 ''ann''"
proof -
  have cell: "arrays (demo_heap\<lparr>arrays := (arrays demo_heap)(1 \<mapsto>
            [demo_report ''r3'' ''ann'' 300, demo_report ''r1'' ''ann'' 100]), fresh := 2\<rparr>) 1
        = Some [demo_report ''r3'' ''ann'' 300, demo_report ''r1'' ''ann'' 100]" by simp
  have role: "utf16 ''user'' \<noteq> utf16 ''admin''" by (simp add: utf16_def)
  from filteredReports_visibility [OF demo_run_ann cell] role
  have "\<forall>r\<in>set [demo_report ''r3'' ''ann'' 300, demo_report ''r1'' ''ann'' 100].
          reportedBy r = utf16 ''ann''" by blast
  then show ?thesis using demo_run_ann role
    by (simp add: demo_reports_def demo_report_def utf16_def)
qed

section \<open>The guard of the form\<close>

lemma dropWhile_all_iff: "(\<forall>x\<in>set (dropWhile P s). P x) = (dropWhile P s = [])"
proof
  assume all: "\<forall>x\<in>set (dropWhile P s). P x"
  show "dropWhile P s = []"
  proof (rule ccontr)
    assume ne: "dropWhile P s \<noteq> []"
    then have "\<not> P (hd (dropWhile P s))" by (rule hd_dropWhile)
    moreover have "hd (dropWhile P s) \<in> set (dropWhile P s)" using ne by simp
    ultimately show False using all by blast
  qed
next
  assume "dropWhile P s = []"
  then show "\<forall>x\<in>set (dropWhile P s). P x" by (auto dest: set_dropWhileD)
qed

lemma trim_empty_iff: "(trim s = []) = (\<forall>c\<in>set s. isWhiteSpace c)"
proof -
  have "(trim s = []) = (\<forall>x\<in>set (dropWhile isWhiteSpace s). isWhiteSpace x)"
    by (simp add: trim_def)
  also have "\<dots> = (dropWhile isWhiteSpace s = [])" by (rule dropWhile_all_iff)
  also have "\<dots> = (\<forall>c\<in>set s. isWhiteSpace c)" by simp
  finally show ?thesis .
qed

text \<open>
  Claim C10 (submission guard). \<open>handleSubmitReport\<close> hands the form's fields to the
  create mutation exactly when \<open>itemId\<close> is not empty and the description holds a
  character that is not white space; it issues no other mutation, and it leaves the
  page's state, the form included, as it was.
\<close>

theorem handleSubmitReport_guard:
  "(Mutate (itemId (formData st)) userId (reportType (formData st)) (severity (formData st))
           (description (formData st)) \<in> set (fst (handleSubmitReport userId st)))
     = (itemId (formData st) \<noteq> [] \<and> (\<exists>c\<in>set (description (formData st)). \<not> isWhiteSpace c))
   \<and> (\<exists>a b c d e. Mutate a b c d e \<in> set (fst (handleSubmitReport userId st)))
     = (itemId (formData st) \<noteq> [] \<and> (\<exists>c\<in>set (description (formData st)). \<not> isWhiteSpace c))
   \<and> snd (handleSubmitReport userId st) = st"
  using trim_empty_iff [of "description (formData st)"]
  by (auto simp: handleSubmitReport_def)

theorem handleSubmitReport_guard_witness:
  "handleSubmitReport (utf16 ''ann'') (demo_page ''cam'' ''  cracked lens '')
     = ([PreventDefault,
         Mutate (utf16 ''cam'') (utf16 ''ann'') (utf16 ''user-damage'') (utf16 ''medium'')
                (utf16 ''  cracked lens '')],
        demo_page ''cam'' ''  cracked lens '')
   \<and> fst (handleSubmitReport (utf16 ''ann'') (demo_page ''cam'' [CHR 0x20, CHR 0x09, CHR 0x0A]))
     = [PreventDefault,
        Toast (utf16 ''Please fill in all required fields'') (Some (utf16 ''destructive''))]
   \<and> snd (handleSubmitReport (utf16 ''ann'') (demo_page ''cam'' [CHR 0x20, CHR 0x09, CHR 0x0A]))
     = demo_page ''cam'' [CHR 0x20, CHR 0x09, CHR 0x0A]
   \<and> fst (handleSubmitReport (utf16 ''ann'') (demo_page '''' ''cracked lens''))
     = [PreventDefault,
        Toast (utf16 ''Please fill in all required fields'') (Some (utf16 ''destructive''))]"
  using handleSubmitReport_guard [of "demo_page ''cam'' ''  cracked lens ''" "utf16 ''ann''"]
  by (simp add: handleSubmitReport_def demo_page_def utf16_def trim_def isWhiteSpace_def)

section \<open>Transitions of the reservation engine\<close>

lemma find_res_id: "find_reservation s rid = Some r \<Longrightarrow> res_id r = rid"
  by (auto simp: find_reservation_def find_Some_iff)

lemma find_put_other:
  "res_id r' \<noteq> b \<Longrightarrow>
   find (\<lambda>r. res_id r = b) (put_reservation r' rs) = find (\<lambda>r. res_id r = b) rs"
  by (induction rs) (auto simp: put_reservation_def)

lemma find_put_same:
  "find (\<lambda>r. res_id r = res_id r') rs = Some r0 \<Longrightarrow>
   find (\<lambda>r. res_id r = res_id r') (put_reservation r' rs) = Some r'"
  by (induction rs) (auto simp: put_reservation_def split: if_splits)

lemma edge_terminal:
  "st = Rejected \<or> st = Completed \<or> st = Cancelled \<Longrightarrow> edge st target = None"
  by (cases target) auto

lemma derive_not_maintenance: "derive_item_status rs item \<noteq> Maintenance"
  by (simp add: derive_item_status_def)

lemma query_without_entry:
  "\<not> index_member idx item a \<Longrightarrow>
   index_query idx item s e None = index_query idx item s e (Some a)"
proof -
  assume "\<not> index_member idx item a"
  then have "\<forall>x\<in>set (idx item). fst x \<noteq> a" by (auto simp: index_member_def)
  then have "filter (\<lambda>(r, s', e'). overlaps s e s' e' \<and> None \<noteq> Some r) (idx item)
           = filter (\<lambda>(r, s', e'). overlaps s e s' e' \<and> Some a \<noteq> Some r) (idx item)"
    by (intro filter_cong) auto
  then show ?thesis by (simp add: index_query_def)
qed

lemma check_Ok_iff: "(check idx item s e x = Ok) = (index_query idx item s e x = [])"
  by (simp add: check_def split: list.splits)

lemma next_index_approve:
  assumes "check (index s) (res_itemId r) (startDate r) (returnDate r) (Some (res_id r)) = Ok"
  shows "next_index s r Approved =
           Inr (if index_member (index s) (res_itemId r) (res_id r) then index s
                else (index s)(res_itemId r :=
                       index s (res_itemId r) @ [(res_id r, startDate r, returnDate r)]))"
proof (cases "index_member (index s) (res_itemId r) (res_id r)")
  case True
  then show ?thesis by (simp add: next_index_def occupies_def)
next
  case False
  have "index_query (index s) (res_itemId r) (startDate r) (returnDate r) None = []"
    using query_without_entry [OF False] assms by (simp add: check_Ok_iff)
  then show ?thesis using False by (simp add: next_index_def occupies_def index_insert_def)
qed

lemma approve_step:
  assumes fa: "find_reservation s a = Some ra"
      and pa: "res_status ra = Pending"
      and nm: "item_status_of s (res_itemId ra) \<noteq> Maintenance"
      and ca: "check (index s) (res_itemId ra) (startDate ra) (returnDate ra) (Some a) = Ok"
  shows "\<exists>ra' s1.
           Transition s now a Approved (Admin u) (version ra) why = (Inr ra', s1)
         \<and> res_status ra' = Approved \<and> res_id ra' = a
         \<and> reservations s1 = put_reservation ra' (reservations s)
         \<and> item_status_of s1 (res_itemId ra) \<noteq> Maintenance
         \<and> (index s1 = index s
            \<or> index s1 = (index s)(res_itemId ra :=
                 index s (res_itemId ra) @ [(a, startDate ra, returnDate ra)]))"
proof -
  have ida: "res_id ra = a" using fa by (rule find_res_id)
  have ni: "next_index s ra Approved =
           Inr (if index_member (index s) (res_itemId ra) a then index s
                else (index s)(res_itemId ra :=
                       index s (res_itemId ra) @ [(a, startDate ra, returnDate ra)]))"
    using next_index_approve [of s ra] ca ida by simp
  show ?thesis
    using fa pa nm ca ida ni derive_not_maintenance
    by (simp add: Transition_def commit_def Let_def occupies_def)
qed

lemma check_after_neighbour:
  assumes cb: "check idx item sb eb (Some b) = Ok"
      and no: "\<not> overlaps sb eb sa ea"
  shows "check (idx(item := idx item @ [(a, sa, ea)])) item sb eb (Some b) = Ok"
  using assms by (simp add: check_Ok_iff index_query_def)

lemma approve_both:
  assumes fa: "find_reservation s a = Some ra"
      and fb: "find_reservation s b = Some rb"
      and ne: "a \<noteq> b"
      and pa: "res_status ra = Pending"
      and pb: "res_status rb = Pending"
      and it: "res_itemId rb = res_itemId ra"
      and nm: "item_status_of s (res_itemId ra) \<noteq> Maintenance"
      and ca: "check (index s) (res_itemId ra) (startDate ra) (returnDate ra) (Some a) = Ok"
      and cb: "check (index s) (res_itemId rb) (startDate rb) (returnDate rb) (Some b) = Ok"
      and no: "\<not> overlaps (startDate rb) (returnDate rb) (startDate ra) (returnDate ra)"
  shows "\<exists>ra' s1 rb' s2.
           Transition s t1 a Approved (Admin u1) (version ra) w1 = (Inr ra', s1)
         \<and> Transition s1 t2 b Approved (Admin u2) (version rb) w2 = (Inr rb', s2)
         \<and> find_reservation s2 a = Some ra' \<and> res_status ra' = Approved
         \<and> find_reservation s2 b = Some rb' \<and> res_status rb' = Approved"
proof -
  from approve_step [OF fa pa nm ca, of t1 u1 w1] obtain ra' s1 where
    t1: "Transition s t1 a Approved (Admin u1) (version ra) w1 = (Inr ra', s1)"
    and sa: "res_status ra' = Approved" and ida: "res_id ra' = a"
    and rs1: "reservations s1 = put_reservation ra' (reservations s)"
    and nm1: "item_status_of s1 (res_itemId ra) \<noteq> Maintenance"
    and ix1: "index s1 = index s
            \<or> index s1 = (index s)(res_itemId ra :=
                 index s (res_itemId ra) @ [(a, startDate ra, returnDate ra)])"
    by blast
  have fa1: "find_reservation s1 a = Some ra'"
    using fa find_put_same [of ra' "reservations s" ra] ida rs1
    by (simp add: find_reservation_def)
  have fb1: "find_reservation s1 b = Some rb"
    using fb find_put_other [of ra' b "reservations s"] ida ne rs1
    by (simp add: find_reservation_def)
  have cb1: "check (index s1) (res_itemId rb) (startDate rb) (returnDate rb) (Some b) = Ok"
    using ix1 cb check_after_neighbour [OF cb no, of a] it by auto
  have nm1': "item_status_of s1 (res_itemId rb) \<noteq> Maintenance" using nm1 it by simp
  from approve_step [OF fb1 pb nm1' cb1, of t2 u2 w2] obtain rb' s2 where
    t2: "Transition s1 t2 b Approved (Admin u2) (version rb) w2 = (Inr rb', s2)"
    and sb: "res_status rb' = Approved" and idb: "res_id rb' = b"
    and rs2: "reservations s2 = put_reservation rb' (reservations s1)"
    by blast
  have fb2: "find_reservation s2 b = Some rb'"
    using fb1 find_put_same [of rb' "reservations s1" rb] idb rs2
    by (simp add: find_reservation_def)
  have fa2: "find_reservation s2 a = Some ra'"
    using fa1 find_put_other [of rb' a "reservations s1"] idb ne rs2
    by (simp add: find_reservation_def)
  show ?thesis using t1 t2 fa2 sa fb2 sb by blast
qed

text \<open>
  Claim C3 (terminal statuses are absorbing). For a reservation that is Rejected,
  Completed or Cancelled, every call of \<open>Transition\<close>, whatever the target status, the
  actor, the version and the time, fails with \<open>InvalidTransition\<close> and leaves the whole
  state, the reservation with it, as it was.
\<close>

theorem terminal_absorbing:
  assumes "find_reservation s rid = Some r"
      and "res_status r = Rejected \<or> res_status r = Completed \<or> res_status r = Cancelled"
  shows "Transition s now rid target actor ver why = (Inl InvalidTransition, s)"
  using assms(1) edge_terminal [OF assms(2), of target] by (simp add: Transition_def)

theorem terminal_absorbing_witness:
  "find_reservation demo_engine 4 = Some (demo_reservation 4 20 25 Rejected)
   \<and> res_status (demo_reservation 4 20 25 Rejected) = Rejected
   \<and> Transition demo_engine 0 4 Approved (Admin 9) 0 None = (Inl InvalidTransition, demo_engine)
   \<and> Transition demo_engine 30 4 Cancelled (Member 3) 0 None = (Inl InvalidTransition, demo_engine)"
proof -
  have f: "find_reservation demo_engine 4 = Some (demo_reservation 4 20 25 Rejected)"
    by (simp add: find_reservation_def demo_engine_def demo_reservation_def)
  have t: "res_status (demo_reservation 4 20 25 Rejected) = Rejected
         \<or> res_status (demo_reservation 4 20 25 Rejected) = Completed
         \<or> res_status (demo_reservation 4 20 25 Rejected) = Cancelled"
    by (simp add: demo_reservation_def)
  show ?thesis
    using f terminal_absorbing [OF f t, of 0 Approved "Admin 9" 0 None]
      terminal_absorbing [OF f t, of 30 Cancelled "Member 3" 0 None]
    by (simp add: demo_reservation_def)
qed

text \<open>
  The Conflict Detector does refuse an overlap: the window from day 11 to day 13 meets
  the Approved one from day 10 to day 12.
\<close>

lemma demo_overlap_conflict:
  "Transition demo_engine 0 5 Approved (Admin 9) 0 None = (Inl (BookingConflict [3]), demo_engine)"
  by (simp add: Transition_def find_reservation_def demo_engine_def demo_reservation_def
      check_def index_query_def overlaps_def occupies_def)

text \<open>
  Claim C7 (boundary adjacency). Two windows of which one ends where the other starts do
  not overlap. So two Pending reservations of one item with such windows, neither in
  conflict with a window the Interval Index holds, can both be approved, in either
  order: both calls of \<open>Transition\<close> succeed and both reservations are Approved
  afterwards.
\<close>

theorem adjacent_both_approvable:
  assumes fa: "find_reservation s a = Some ra"
      and fb: "find_reservation s b = Some rb"
      and ne: "a \<noteq> b"
      and pa: "res_status ra = Pending"
      and pb: "res_status rb = Pending"
      and it: "res_itemId rb = res_itemId ra"
      and adj: "returnDate ra = startDate rb"
      and nm: "item_status_of s (res_itemId ra) \<noteq> Maintenance"
      and ca: "check (index s) (res_itemId ra) (startDate ra) (returnDate ra) (Some a) = Ok"
      and cb: "check (index s) (res_itemId rb) (startDate rb) (returnDate rb) (Some b) = Ok"
  shows "\<not> overlaps (startDate ra) (returnDate ra) (startDate rb) (returnDate rb)
       \<and> (\<exists>ra' s1 rb' s2.
             Transition s t1 a Approved (Admin u1) (version ra) w1 = (Inr ra', s1)
           \<and> Transition s1 t2 b Approved (Admin u2) (version rb) w2 = (Inr rb', s2)
           \<and> find_reservation s2 a = Some ra' \<and> res_status ra' = Approved
           \<and> find_reservation s2 b = Some rb' \<and> res_status rb' = Approved)
       \<and> (\<exists>rb' s1 ra' s2.
             Transition s t1 b Approved (Admin u1) (version rb) w1 = (Inr rb', s1)
           \<and> Transition s1 t2 a Approved (Admin u2) (version ra) w2 = (Inr ra', s2)
           \<and> find_reservation s2 a = Some ra' \<and> res_status ra' = Approved
           \<and> find_reservation s2 b = Some rb' \<and> res_status rb' = Approved)"
proof -
  have n1: "\<not> overlaps (startDate ra) (returnDate ra) (startDate rb) (returnDate rb)"
    using adj by (simp add: overlaps_def)
  have n2: "\<not> overlaps (startDate rb) (returnDate rb) (startDate ra) (returnDate ra)"
    using adj by (simp add: overlaps_def)
  have nmb: "item_status_of s (res_itemId rb) \<noteq> Maintenance" using nm it by simp
  have first: "\<exists>ra' s1 rb' s2.
             Transition s t1 a Approved (Admin u1) (version ra) w1 = (Inr ra', s1)
           \<and> Transition s1 t2 b Approved (Admin u2) (version rb) w2 = (Inr rb', s2)
           \<and> find_reservation s2 a = Some ra' \<and> res_status ra' = Approved
           \<and> find_reservation s2 b = Some rb' \<and> res_status rb' = Approved"
    by (rule approve_both [OF fa fb ne pa pb it nm ca cb n2])
  have "\<exists>rb' s1 ra' s2.
             Transition s t1 b Approved (Admin u1) (version rb) w1 = (Inr rb', s1)
           \<and> Transition s1 t2 a Approved (Admin u2) (version ra) w2 = (Inr ra', s2)
           \<and> find_reservation s2 b = Some rb' \<and> res_status rb' = Approved
           \<and> find_reservation s2 a = Some ra' \<and> res_status ra' = Approved"
    by (rule approve_both [OF fb fa ne [symmetric] pb pa it [symmetric] nmb cb ca n1])
  then have second: "\<exists>rb' s1 ra' s2.
             Transition s t1 b Approved (Admin u1) (version rb) w1 = (Inr rb', s1)
           \<and> Transition s1 t2 a Approved (Admin u2) (version ra) w2 = (Inr ra', s2)
           \<and> find_reservation s2 a = Some ra' \<and> res_status ra' = Approved
           \<and> find_reservation s2 b = Some rb' \<and> res_status rb' = Approved"
    by blast
  show ?thesis using n1 first second by blast
qed

theorem adjacent_both_approvable_witness:
  "find_reservation demo_engine 1 = Some (demo_reservation 1 1 5 Pending)
   \<and> find_reservation demo_engine 2 = Some (demo_reservation 2 5 10 Pending)
   \<and> returnDate (demo_reservation 1 1 5 Pending) = startDate (demo_reservation 2 5 10 Pending)
   \<and> item_status_of demo_engine 7 = Reserved
   \<and> check (index demo_engine) 7 1 5 (Some 1) = Ok
   \<and> check (index demo_engine) 7 5 10 (Some 2) = Ok
   \<and> (\<exists>ra' s1 rb' s2.
         Transition demo_engine 0 1 Approved (Admin 9) 0 None = (Inr ra', s1)
       \<and> Transition s1 0 2 Approved (Admin 9) 0 None = (Inr rb', s2)
       \<and> find_reservation s2 1 = Some ra' \<and> res_status ra' = Approved
       \<and> find_reservation s2 2 = Some rb' \<and> res_status rb' = Approved)"
proof -
  let ?ra = "demo_reservation 1 1 5 Pending"
  let ?rb = "demo_reservation 2 5 10 Pending"
  have fa: "find_reservation demo_engine 1 = Some ?ra"
    by (simp add: find_reservation_def demo_engine_def demo_reservation_def)
  have fb: "find_reservation demo_engine 2 = Some ?rb"
    by (simp add: find_reservation_def demo_engine_def demo_reservation_def)
  have ne: "(1::nat) \<noteq> 2" by simp
  have pa: "res_status ?ra = Pending" by (simp add: demo_reservation_def)
  have pb: "res_status ?rb = Pending" by (simp add: demo_reservation_def)
  have it: "res_itemId ?rb = res_itemId ?ra" by (simp add: demo_reservation_def)
  have adj: "returnDate ?ra = startDate ?rb" by (simp add: demo_reservation_def)
  have st: "item_status_of demo_engine 7 = Reserved" by (simp add: demo_engine_def)
  have nm: "item_status_of demo_engine (res_itemId ?ra) \<noteq> Maintenance"
    by (simp add: demo_engine_def demo_reservation_def)
  have ca0: "check (index demo_engine) 7 1 5 (Some 1) = Ok"
    by (simp add: check_def index_query_def overlaps_def demo_engine_def)
  have cb0: "check (index demo_engine) 7 5 10 (Some 2) = Ok"
    by (simp add: check_def index_query_def overlaps_def demo_engine_def)
  have ca: "check (index demo_engine) (res_itemId ?ra) (startDate ?ra) (returnDate ?ra) (Some 1) = Ok"
    using ca0 by (simp add: demo_reservation_def)
  have cb: "check (index demo_engine) (res_itemId ?rb) (startDate ?rb) (returnDate ?rb) (Some 2) = Ok"
    using cb0 by (simp add: demo_reservation_def)
  have ver: "version ?ra = 0" "version ?rb = 0" by (simp_all add: demo_reservation_def)
  from adjacent_both_approvable [OF fa fb ne pa pb it adj nm ca cb, of 0 9 None 0 9 None]
  have "\<exists>ra' s1 rb' s2.
         Transition demo_engine 0 1 Approved (Admin 9) 0 None = (Inr ra', s1)
       \<and> Transition s1 0 2 Approved (Admin 9) 0 None = (Inr rb', s2)
       \<and> find_reservation s2 1 = Some ra' \<and> res_status ra' = Approved
       \<and> find_reservation s2 2 = Some rb' \<and> res_status rb' = Approved"
    unfolding ver by blast
  then show ?thesis using fa fb adj st ca0 cb0 by blast
qed

end
